theory Spec2Isabelle
  imports Main "HOL-Library.Finite_Map"
begin

section \<open>JavaScript values used by the framework layer\<close>

text \<open>
  Exceptions are values. \<open>TypeError\<close> is what the JavaScript engine raises when a
  value that is not a function is called; \<open>Thrown\<close> is an exception raised by code that
  is handed in from outside (a constructor body, a custom registrar).
\<close>

datatype error = TypeError string | Thrown string

text \<open>
  The two kinds of array-like object the sources call \<open>.slice()\<close> on. An \<open>Array\<close>
  inherits \<open>slice\<close> from \<open>Array.prototype\<close>. The \<open>arguments\<close> object of a function
  call is array-like (\<open>length\<close> and indexed elements) but inherits from
  \<open>Object.prototype\<close> only, so the member \<open>arguments.slice\<close> is \<open>undefined\<close>.
\<close>

datatype 'v arraylike = Array "'v list" | Arguments "'v list"

text \<open>The member \<open>x.slice\<close>: the method when there is one, \<open>None\<close> for \<open>undefined\<close>.\<close>

fun slice_member :: "'v arraylike \<Rightarrow> (unit \<Rightarrow> 'v list) option" where
  "slice_member (Array xs) = Some (\<lambda>_. xs)"
| "slice_member (Arguments xs) = None"

text \<open>The call \<open>x.slice()\<close>: calling \<open>undefined\<close> raises a TypeError.\<close>

definition slice :: "'v arraylike \<Rightarrow> error + 'v list" where
  "slice x = (case slice_member x of
                None \<Rightarrow> Inl (TypeError ''slice is not a function'')
              | Some m \<Rightarrow> Inr (m ()))"

text \<open>Number-to-string conversion of an array index, as string concatenation does it.\<close>

fun string_of_nat :: "nat \<Rightarrow> string" where
  "string_of_nat n =
     (if n < 10 then [''0123456789'' ! n]
      else string_of_nat (n div 10) @ [''0123456789'' ! (n mod 10)])"

declare string_of_nat.simps [simp del]

section \<open>PartialConstructor.js\<close>

text \<open>
  An object under construction is a map from property names to values. A constructor
  function is its body, run against \<open>this\<close> with an argument list (what
  \<open>Constructor.apply(instance, args)\<close> does to \<open>instance\<close>; its return value is
  ignored by the source), and the value of its \<open>prototype\<close> property.
\<close>

type_synonym 'v js_object = "string \<rightharpoonup> 'v"

record 'v constructor_fn =
  body :: "'v js_object \<Rightarrow> 'v list \<Rightarrow> error + 'v js_object"
  prototype :: "'v"

text \<open>
  \<open>PartialConstructor(Constructor)\<close> returns the outer function; it is modelled by
  what that function does when called with the dependencies. The inner function is
  returned only if the outer one gets past its first statement.
\<close>

definition PartialConstructor ::
  "'v constructor_fn \<Rightarrow> 'v list \<Rightarrow> error + ('v list \<Rightarrow> error + 'v js_object)" where
  "PartialConstructor Constructor args =
     (case slice (Arguments args) of
        Inl e \<Rightarrow> Inl e
      | Inr dependencies \<Rightarrow>
          Inr (\<lambda>args'.
            (case slice (Arguments args') of
               Inl e \<Rightarrow> Inl e
             | Inr other \<Rightarrow>
                 (case body Constructor Map.empty (dependencies @ other) of
                    Inl e \<Rightarrow> Inl e
                  | Inr instance \<Rightarrow>
                      Inr (instance(''prototype'' \<mapsto> prototype Constructor))))))"

section \<open>ExtensionRegistrar.js\<close>

text \<open>
  A resolved extension: the optional properties \<open>key\<close> and \<open>depends\<close>, and, when
  \<open>typeof extension === 'function'\<close>, the constructor it is.
\<close>

record 'v extension =
  key :: "string option"
  depends :: "string list option"
  callable :: "'v constructor_fn option"

text \<open>
  The functions the registrar hands to \<open>app.factory\<close>: \<open>echo\<close> itself, the closure
  \<open>staticFunction(extension)\<close>, and the closure \<open>new PartialConstructor(extension)\<close>.
\<close>

datatype 'v factory =
    Echo
  | StaticFunction "'v extension"
  | Partial "'v constructor_fn"

text \<open>
  The second argument of \<open>app.factory\<close>: the dependency names followed by the factory
  function (\<open>dependencies.concat([factory])\<close>).
\<close>

type_synonym 'v service_argument = "string list \<times> 'v factory"

text \<open>
  The registrar's state: the calls made to \<open>app.factory\<close> in order, the messages
  passed to \<open>$log.warn\<close> in order, and the own properties of the object
  \<open>registeredCategories\<close>, which starts as \<open>{}\<close>.
\<close>

record 'v registrar =
  app :: "(string \<times> 'v service_argument) list"
  warnings :: "string list"
  registeredCategories :: "string \<rightharpoonup> bool"

text \<open>
  \<open>registeredCategories\<close> is a plain object, so the lookup
  \<open>registeredCategories[category]\<close> finds an own property if there is one and
  otherwise a member inherited from \<open>Object.prototype\<close>. These are the names of the
  inherited members; each of them is a function or an object, hence truthy.
\<close>

definition object_prototype_members :: "string list" where
  "object_prototype_members =
     [''constructor'', ''toString'', ''toLocaleString'', ''valueOf'', ''hasOwnProperty'',
      ''isPrototypeOf'', ''propertyIsEnumerable'', ''__proto__'', ''__defineGetter__'',
      ''__defineSetter__'', ''__lookupGetter__'', ''__lookupSetter__'']"

text \<open>
  Truthiness of \<open>obj[name]\<close> for a plain object \<open>obj\<close> whose own properties are
  booleans: the own value if there is one, else whether the name is inherited.
\<close>

definition truthy_lookup :: "(string \<rightharpoonup> bool) \<Rightarrow> string \<Rightarrow> bool" where
  "truthy_lookup obj name =
     (case obj name of
        Some b \<Rightarrow> b
      | None \<Rightarrow> name \<in> set object_prototype_members)"

text \<open>
  A custom registrar is outside code acting on the application module; it may throw.
  The parameter \<open>customRegistrars\<close> of the functions below gives, for a category, the
  function found at \<open>customRegistrars[category]\<close>, own or inherited, and \<open>None\<close> when
  that lookup is falsy.
\<close>

type_synonym 'v custom_registrar =
  "'v extension \<Rightarrow> nat \<Rightarrow> (string \<times> 'v service_argument) list
     \<Rightarrow> error + (string \<times> 'v service_argument) list"

text \<open>JavaScript truthiness of an optional string: \<open>undefined\<close> and \<open>""\<close> are falsy.\<close>

fun truthy_string :: "string option \<Rightarrow> bool" where
  "truthy_string None = False"
| "truthy_string (Some s) = (s \<noteq> [])"

definition identify :: "string \<Rightarrow> 'v extension \<Rightarrow> nat \<Rightarrow> string" where
  "identify category extension index =
     (let name = (if truthy_string (key extension)
                  then the (key extension) @ ''-'' @ string_of_nat index
                  else string_of_nat index)
      in category @ ''['' @ name @ '']'')"

definition echo :: "'a list \<Rightarrow> error + 'a list" where
  "echo args = slice (Arguments args)"

definition staticFunction :: "'a \<Rightarrow> 'b list \<Rightarrow> 'a" where
  "staticFunction val = (\<lambda>_. val)"

definition makeServiceArgument :: "string \<Rightarrow> 'v extension \<Rightarrow> 'v service_argument" where
  "makeServiceArgument category extension =
     (let dependencies = (case depends extension of Some ds \<Rightarrow> ds | None \<Rightarrow> []);
          factory = (case callable extension of
                       Some c \<Rightarrow> Partial c
                     | None \<Rightarrow> StaticFunction extension)
      in (dependencies, factory))"

text \<open>What a registered factory does when the injector calls it.\<close>

datatype 'v produced =
    Echoed "'v list"
  | StaticValue "'v extension"
  | Bound "'v list \<Rightarrow> error + 'v js_object"

fun invoke :: "'v factory \<Rightarrow> 'v list \<Rightarrow> error + 'v produced" where
  "invoke Echo args = (case echo args of Inl e \<Rightarrow> Inl e | Inr xs \<Rightarrow> Inr (Echoed xs))"
| "invoke (StaticFunction val) args = Inr (StaticValue (staticFunction val args))"
| "invoke (Partial c) args =
     (case PartialConstructor c args of Inl e \<Rightarrow> Inl e | Inr f \<Rightarrow> Inr (Bound f))"

text \<open>\<open>xs.forEach(f)\<close>: the callback gets the element and its index; a throw ends the loop.\<close>

fun forEach :: "('a \<Rightarrow> nat \<Rightarrow> 's \<Rightarrow> error + 's) \<Rightarrow> 'a list \<Rightarrow> nat \<Rightarrow> 's \<Rightarrow> error + 's" where
  "forEach f [] i s = Inr s"
| "forEach f (x # xs) i s =
     (case f x i s of Inl e \<Rightarrow> Inl e | Inr s' \<Rightarrow> forEach f xs (Suc i) s')"

text \<open>
  \<open>Constants.EXTENSION_SUFFIX\<close> is defined outside these sources; it is a parameter
  \<open>suffix\<close> of the functions below.
\<close>

definition registerExtensionArraysForCategory ::
  "string \<Rightarrow> string \<Rightarrow> string list \<Rightarrow> (string \<times> 'v service_argument) list
     \<Rightarrow> (string \<times> 'v service_argument) list" where
  "registerExtensionArraysForCategory suffix category names a =
     (let name = category @ suffix in a @ [(name, (names, Echo))])"

text \<open>The inner function \<open>registerExtension\<close>; its state is \<open>names\<close> and the module.\<close>

definition registerExtension ::
  "string \<Rightarrow> 'v extension \<Rightarrow> nat
     \<Rightarrow> string list \<times> (string \<times> 'v service_argument) list
     \<Rightarrow> error + string list \<times> (string \<times> 'v service_argument) list" where
  "registerExtension category extension index st =
     (let name = identify category extension index
      in Inr (fst st @ [name],
              snd st @ [(name, makeServiceArgument category extension)]))"

definition warning :: "string \<Rightarrow> string" where
  "warning category =
     concat [''Tried to register extensions for category '',
             category,
             '' more than once. Ignoring all but first set.'']"

text \<open>
  \<open>registerExtensionsForCategory\<close>: its return value (\<open>true\<close> or nothing) is ignored by
  the caller and left out.
\<close>

definition registerExtensionsForCategory ::
  "(string \<rightharpoonup> 'v custom_registrar) \<Rightarrow> string \<Rightarrow> string \<Rightarrow> 'v extension list
     \<Rightarrow> 'v registrar \<Rightarrow> error + 'v registrar" where
  "registerExtensionsForCategory customRegistrars suffix category extensions s =
     (if truthy_lookup (registeredCategories s) category
      then Inr (s\<lparr>warnings := warnings s @ [warning category]\<rparr>)
      else
        (case (case customRegistrars category of
                 Some custom \<Rightarrow> forEach custom extensions 0 (app s)
               | None \<Rightarrow>
                   (case forEach (registerExtension category) extensions 0 ([], app s) of
                      Inl e \<Rightarrow> Inl e
                    | Inr (names, a) \<Rightarrow>
                        Inr (registerExtensionArraysForCategory suffix category names a)))
         of Inl e \<Rightarrow> Inl e
          | Inr a \<Rightarrow>
              Inr (s\<lparr>app := a,
                     registeredCategories := (registeredCategories s)(category \<mapsto> True)\<rparr>)))"

text \<open>
  \<open>registerExtensions\<close>: the extension group is given as its entries in the order of
  \<open>Object.keys(extensionGroup)\<close>.
\<close>

fun registerExtensionGroup ::
  "(string \<rightharpoonup> 'v custom_registrar) \<Rightarrow> string \<Rightarrow> (string \<times> 'v extension list) list
     \<Rightarrow> 'v registrar \<Rightarrow> error + 'v registrar" where
  "registerExtensionGroup customRegistrars suffix [] s = Inr s"
| "registerExtensionGroup customRegistrars suffix ((category, extensions) # rest) s =
     (case registerExtensionsForCategory customRegistrars suffix category extensions s of
        Inl e \<Rightarrow> Inl e
      | Inr s' \<Rightarrow> registerExtensionGroup customRegistrars suffix rest s')"

text \<open>The registrar as \<open>ExtensionRegistrar(app, customRegistrars, $log)\<close> creates it.\<close>

definition ExtensionRegistrar :: "'v registrar" where
  "ExtensionRegistrar = \<lparr>app = [], warnings = [], registeredCategories = Map.empty\<rparr>"

text \<open>
  The naming rule in the specification's words: \<open>category[key-index]\<close> if the extension
  declares a key, else \<open>category[index]\<close>.
\<close>

definition identify_as_specified :: "string \<Rightarrow> 'v extension \<Rightarrow> nat \<Rightarrow> string" where
  "identify_as_specified category extension index =
     (case key extension of
        Some k \<Rightarrow> category @ ''['' @ k @ ''-'' @ string_of_nat index @ '']''
      | None \<Rightarrow> category @ ''['' @ string_of_nat index @ '']'')"

section \<open>CopyPolicy\<close>

record capability =
  hasFeature :: "string \<Rightarrow> bool"

record target_object =
  getCapability :: "string \<Rightarrow> capability option"

record metadata =
  metadata_key :: "string option"

record action =
  getMetadata :: "metadata"

record action_context =
  ctx_selectedObject :: "target_object option"
  ctx_domainObject :: "target_object option"

definition allowCreation :: "target_object option \<Rightarrow> bool" where
  "allowCreation domainObject =
     (case domainObject of
        None \<Rightarrow> False
      | Some d \<Rightarrow>
          (case getCapability d ''type'' of
             None \<Rightarrow> False
           | Some type \<Rightarrow> hasFeature type ''creation''))"

definition selectedObject :: "action_context \<Rightarrow> target_object option" where
  "selectedObject context =
     (case ctx_selectedObject context of
        Some obj \<Rightarrow> Some obj
      | None \<Rightarrow> ctx_domainObject context)"

definition allow :: "action \<Rightarrow> action_context \<Rightarrow> bool" where
  "allow action context =
     (let k = metadata_key (getMetadata action)
      in if k = Some ''copy'' then allowCreation (selectedObject context) else True)"

section \<open>TableConfiguration.js\<close>

text \<open>
  The column classes are defined outside these sources; a column is the constructor
  call that made it. Their methods \<open>getTitle\<close> and \<open>getValue\<close> are parameters of the
  functions that call them.
\<close>

datatype ('m, 'f) column = DomainColumn 'm 'f | RangeColumn 'm 'f | NameColumn

record 'm metadatum =
  domains :: "'m list option"
  ranges :: "'m list option"

text \<open>
  The part of the domain object's model these functions read and write:
  \<open>model.configuration.table.columns\<close>, each level possibly \<open>undefined\<close>. A column
  configuration maps column titles to booleans.
\<close>

type_synonym column_config = "(string, bool) fmap"

record table =
  table_columns :: "column_config option"

record configuration =
  table :: "table option"

record model =
  configuration :: "configuration option"

record domain_object =
  getModel :: "model"
  mutations :: "nat"

record ('m, 'f) TableConfiguration =
  domainObject :: "domain_object"
  columns :: "('m, 'f) column list"
  columnConfiguration :: "column_config"
  telemetryFormatter :: "'f"

definition addColumn ::
  "('m, 'f) column \<Rightarrow> nat option \<Rightarrow> ('m, 'f) TableConfiguration
     \<Rightarrow> ('m, 'f) TableConfiguration" where
  "addColumn column index self =
     (case index of
        None \<Rightarrow> self\<lparr>columns := columns self @ [column]\<rparr>
      | Some i \<Rightarrow>
          self\<lparr>columns := take i (columns self) @ [column] @ drop i (columns self)\<rparr>)"

definition buildColumns ::
  "'m metadatum list option \<Rightarrow> ('m, 'f) TableConfiguration
     \<Rightarrow> ('m, 'f) TableConfiguration" where
  "buildColumns metadata this =
     (let self = this\<lparr>columns := []\<rparr>
      in case metadata of
           None \<Rightarrow> self
         | Some md \<Rightarrow>
             (let self' =
                fold (\<lambda>metadatum s.
                        fold (\<lambda>rangeMetadata s2.
                                addColumn (RangeColumn rangeMetadata (telemetryFormatter s2))
                                  None s2)
                          (case ranges metadatum of Some rs \<Rightarrow> rs | None \<Rightarrow> [])
                          (fold (\<lambda>domainMetadata s1.
                                   addColumn
                                     (DomainColumn domainMetadata (telemetryFormatter s1))
                                     None s1)
                             (case domains metadatum of Some ds \<Rightarrow> ds | None \<Rightarrow> [])
                             s))
                  md self
              in if length (columns self') > 0
                 then addColumn NameColumn (Some 0) self'
                 else self'))"

text \<open>
  The column order in the specification's words: all domain columns, then all range
  columns, with the name column put in front.
\<close>

definition columns_as_specified :: "'f \<Rightarrow> 'm metadatum list \<Rightarrow> ('m, 'f) column list" where
  "columns_as_specified fmt md =
     NameColumn
     # concat (map (\<lambda>m. map (\<lambda>d. DomainColumn d fmt)
                            (case domains m of Some ds \<Rightarrow> ds | None \<Rightarrow> [])) md)
     @ concat (map (\<lambda>m. map (\<lambda>r. RangeColumn r fmt)
                            (case ranges m of Some rs \<Rightarrow> rs | None \<Rightarrow> [])) md)"

text \<open>The columns one metadatum contributes: its domains, then its ranges.\<close>

definition metadatum_columns :: "'f \<Rightarrow> 'm metadatum \<Rightarrow> ('m, 'f) column list" where
  "metadatum_columns fmt m =
     map (\<lambda>d. DomainColumn d fmt) (case domains m of Some ds \<Rightarrow> ds | None \<Rightarrow> [])
     @ map (\<lambda>r. RangeColumn r fmt) (case ranges m of Some rs \<Rightarrow> rs | None \<Rightarrow> [])"

text \<open>
  A formatted cell value: its \<open>text\<close> property (the field \<open>cell_text\<close>) may be
  \<open>undefined\<close>; other properties are kept in the record's extension.
\<close>

record cell =
  cell_text :: "string option"

text \<open>\<open>xs.reduce(f, init)\<close>: the callback gets the accumulator, the element and its index.\<close>

fun reduce :: "('b \<Rightarrow> 'a \<Rightarrow> nat \<Rightarrow> 'b) \<Rightarrow> 'a list \<Rightarrow> nat \<Rightarrow> 'b \<Rightarrow> 'b" where
  "reduce f [] i acc = acc"
| "reduce f (x # xs) i acc = reduce f xs (Suc i) (f acc x i)"

text \<open>
  The callback of \<open>getRowValues\<close>. The row object is a map from titles to values, with
  \<open>None\<close> for \<open>undefined\<close>.
\<close>

definition rowStep ::
  "('c \<Rightarrow> string option) \<Rightarrow> ('c \<Rightarrow> 't \<Rightarrow> 'd \<Rightarrow> 'z cell_scheme option) \<Rightarrow> 't \<Rightarrow> 'd
     \<Rightarrow> (string \<rightharpoonup> 'z cell_scheme) \<Rightarrow> 'c \<Rightarrow> nat \<Rightarrow> (string \<rightharpoonup> 'z cell_scheme)" where
  "rowStep getTitle getValue telemetryObject datum rowObject column i =
     (let columnTitle = (if truthy_string (getTitle column)
                         then the (getTitle column)
                         else ''Column '' @ string_of_nat (i + 1));
          columnValue = (case getValue column telemetryObject datum of
                           None \<Rightarrow> None
                         | Some v \<Rightarrow>
                             if cell_text v = None then Some (v\<lparr>cell_text := Some ''''\<rparr>)
                             else Some v)
      in if (case rowObject columnTitle of
               None \<Rightarrow> True
             | Some recorded \<Rightarrow>
                 (case cell_text recorded of
                    None \<Rightarrow> True
                  | Some t \<Rightarrow> length t = 0))
         then rowObject(columnTitle := columnValue)
         else rowObject)"

definition getRowValues ::
  "('c \<Rightarrow> string option) \<Rightarrow> ('c \<Rightarrow> 't \<Rightarrow> 'd \<Rightarrow> 'z cell_scheme option) \<Rightarrow> 'c list
     \<Rightarrow> 't \<Rightarrow> 'd \<Rightarrow> (string \<rightharpoonup> 'z cell_scheme)" where
  "getRowValues getTitle getValue cols telemetryObject datum =
     reduce (rowStep getTitle getValue telemetryObject datum) cols 0 Map.empty"

text \<open>
  \<open>equal(obj1, obj2)\<close>: \<open>Object.keys\<close> of an object is the set of its keys, its
  \<open>length\<close> their number; \<open>obj[key]\<close> is the lookup, \<open>None\<close> for \<open>undefined\<close>.
\<close>

definition equal_config :: "column_config \<Rightarrow> column_config \<Rightarrow> bool" where
  "equal_config obj1 obj2 =
     (let obj1Keys = fmdom obj1;
          obj2Keys = fmdom obj2
      in fcard obj1Keys = fcard obj2Keys \<and>
         fBall obj1Keys (\<lambda>key. fmlookup obj1 key = fmlookup obj2 key))"

text \<open>
  Shallow key-wise equality in the specification's words: the same key set and an
  identical value per key.
\<close>

definition shallow_equal :: "column_config \<Rightarrow> column_config \<Rightarrow> bool" where
  "shallow_equal obj1 obj2 =
     (fmdom obj1 = fmdom obj2 \<and>
      (\<forall>k. k |\<in>| fmdom obj1 \<longrightarrow> fmlookup obj1 k = fmlookup obj2 k))"

text \<open>
  Modelled from the spec: the domain object's mutation capability, which is not part
  of these sources. \<open>useCapability('mutation', mutator)\<close> calls the mutator once on
  the model; the call is counted in \<open>mutations\<close>. The mutator also acts on the state
  \<open>'s\<close> it closes over.
\<close>

definition useCapability_mutation ::
  "(model \<Rightarrow> 's \<Rightarrow> model \<times> 's) \<Rightarrow> domain_object \<Rightarrow> 's \<Rightarrow> domain_object \<times> 's" where
  "useCapability_mutation mutator d st =
     (let (m, st') = mutator (getModel d) st
      in (d\<lparr>getModel := m, mutations := Suc (mutations d)\<rparr>, st'))"

text \<open>The function passed to the mutation capability by \<open>saveColumnConfiguration\<close>.\<close>

definition columnMutator ::
  "column_config \<Rightarrow> model \<Rightarrow> ('m, 'f) TableConfiguration
     \<Rightarrow> model \<times> ('m, 'f) TableConfiguration" where
  "columnMutator columnConfig m self =
     (let c = (case configuration m of Some c \<Rightarrow> c | None \<Rightarrow> \<lparr>table = None\<rparr>);
          t = (case table c of Some t \<Rightarrow> t | None \<Rightarrow> \<lparr>table_columns = None\<rparr>)
      in (m\<lparr>configuration := Some (c\<lparr>table := Some (t\<lparr>table_columns := Some columnConfig\<rparr>)\<rparr>)\<rparr>,
          self\<lparr>columnConfiguration := columnConfig\<rparr>))"

definition saveColumnConfiguration ::
  "column_config \<Rightarrow> ('m, 'f) TableConfiguration \<Rightarrow> ('m, 'f) TableConfiguration" where
  "saveColumnConfiguration columnConfig self =
     (if \<not> equal_config (columnConfiguration self) columnConfig
      then (let (d, self') =
                  useCapability_mutation (columnMutator columnConfig) (domainObject self) self
            in self'\<lparr>domainObject := d\<rparr>)
      else self)"

section \<open>Properties of the extension registrar\<close>

lemma forEach_registerExtension:
  "forEach (registerExtension category) es i (ns, a) =
     Inr (ns @ map (\<lambda>(j, e). identify category e j) (enumerate i es),
          a @ map (\<lambda>(j, e). (identify category e j, makeServiceArgument category e))
                (enumerate i es))"
  by (induction es arbitrary: i ns a) (simp_all add: registerExtension_def Let_def)

lemma registerExtensionsForCategory_registered:
  "registeredCategories s C = Some True \<Longrightarrow>
   registerExtensionsForCategory cr sfx C es s =
     Inr (s\<lparr>warnings := warnings s @ [warning C]\<rparr>)"
  by (simp add: registerExtensionsForCategory_def truthy_lookup_def)

lemma registerExtensionsForCategory_keeps_registered:
  "registerExtensionsForCategory cr sfx D es s = Inr s' \<Longrightarrow>
   registeredCategories s C = Some True \<Longrightarrow> registeredCategories s' C = Some True"
  by (auto simp: registerExtensionsForCategory_def split: if_splits sum.splits)

lemma registerExtensionGroup_keeps_registered:
  "registerExtensionGroup cr sfx g s = Inr s' \<Longrightarrow>
   registeredCategories s C = Some True \<Longrightarrow> registeredCategories s' C = Some True"
proof (induction g arbitrary: s)
  case Nil
  then show ?case by simp
next
  case (Cons entry g)
  obtain D es where entry: "entry = (D, es)" by (cases entry)
  from Cons.prems(1) obtain s1 where
    step: "registerExtensionsForCategory cr sfx D es s = Inr s1" and
    rest: "registerExtensionGroup cr sfx g s1 = Inr s'"
    by (auto simp: entry split: sum.splits)
  from step Cons.prems(2) have "registeredCategories s1 C = Some True"
    by (rule registerExtensionsForCategory_keeps_registered)
  with rest show ?case by (rule Cons.IH)
qed

lemma registerExtensionGroup_append:
  "registerExtensionGroup cr sfx (g1 @ g2) s =
     (case registerExtensionGroup cr sfx g1 s of
        Inl e \<Rightarrow> Inl e
      | Inr s1 \<Rightarrow> registerExtensionGroup cr sfx g2 s1)"
  by (induction g1 arbitrary: s) (auto split: sum.splits)

text \<open>
  For a category \<open>C\<close> for which the lookup \<open>registeredCategories[C]\<close> is falsy and
  which has no custom registrar, \<open>registerExtensions({C: es})\<close> does not throw, calls
  \<open>app.factory\<close> once per extension of \<open>es\<close>, in order, under the name \<open>identify\<close>
  gives it, then once more for the aggregate factory \<open>echo\<close> named \<open>C\<close> followed by the
  extension suffix and depending on all those names, and sets the flag of \<open>C\<close>. Nothing
  else changes, so \<open>length es + 1\<close> factories are registered.
\<close>

lemma registerExtensionGroup_fresh:
  assumes "\<not> truthy_lookup (registeredCategories s) C" and "customRegistrars C = None"
  shows "registerExtensionGroup customRegistrars suffix [(C, es)] s =
     Inr (s\<lparr>app := app s
                 @ map (\<lambda>(i, e). (identify C e i, makeServiceArgument C e)) (enumerate 0 es)
                 @ [(C @ suffix, (map (\<lambda>(i, e). identify C e i) (enumerate 0 es), Echo))],
            registeredCategories := (registeredCategories s)(C \<mapsto> True)\<rparr>)"
  using assms
  by (simp add: registerExtensionsForCategory_def forEach_registerExtension
      registerExtensionArraysForCategory_def)

lemma registerExtensionGroup_fresh_actions:
  "registerExtensionGroup Map.empty ''[]''
     [(''actions'', [\<lparr>key = Some ''copy'', depends = None, callable = None\<rparr>,
                      \<lparr>key = Some ''delete'', depends = None, callable = None\<rparr>])]
     (ExtensionRegistrar :: unit registrar) =
   Inr \<lparr>app = [(''actions[copy-0]'',
                 ([], StaticFunction \<lparr>key = Some ''copy'', depends = None, callable = None\<rparr>)),
                (''actions[delete-1]'',
                 ([], StaticFunction \<lparr>key = Some ''delete'', depends = None, callable = None\<rparr>)),
                (''actions[]'', ([''actions[copy-0]'', ''actions[delete-1]''], Echo))],
        warnings = [],
        registeredCategories = [''actions'' \<mapsto> True]\<rparr>"
  using registerExtensionGroup_fresh
      [of "ExtensionRegistrar :: unit registrar" "''actions''" Map.empty "''[]''"
        "[\<lparr>key = Some ''copy'', depends = None, callable = None\<rparr>,
          \<lparr>key = Some ''delete'', depends = None, callable = None\<rparr>]"]
  by (simp add: ExtensionRegistrar_def identify_def makeServiceArgument_def
      string_of_nat.simps enumerate_eq_zip upt_rec truthy_lookup_def
      object_prototype_members_def)

text \<open>
  C1 does not hold of the source. On a new registrar no category has been registered,
  yet for the category \<open>constructor\<close> the lookup \<open>registeredCategories[category]\<close>
  finds the member every object inherits from \<open>Object.prototype\<close>, which is truthy.
  So \<open>registerExtensions({constructor: es})\<close> registers no factory at all, neither
  one per extension nor the aggregate, leaves the category unmarked, and logs that the
  category was registered more than once, whatever the extensions, the custom
  registrars and the suffix are. The same happens for every name in
  \<open>object_prototype_members\<close>.
\<close>

theorem registerExtensions_inherited_name_not_registered:
  "registerExtensionGroup customRegistrars suffix [(''constructor'', es)] ExtensionRegistrar =
     Inr \<lparr>app = [],
          warnings = [''Tried to register extensions for category constructor more than once. Ignoring all but first set.''],
          registeredCategories = Map.empty\<rparr> \<and>
   list_all
     (\<lambda>C. registerExtensionGroup customRegistrars suffix [(C, es)] ExtensionRegistrar =
            Inr \<lparr>app = [], warnings = [warning C], registeredCategories = Map.empty\<rparr>)
     object_prototype_members"
  by (simp add: registerExtensionsForCategory_def ExtensionRegistrar_def truthy_lookup_def
      object_prototype_members_def warning_def)

text \<open>
  C2. For a category \<open>C\<close> whose flag is set, a further \<open>registerExtensions\<close> call with
  \<open>{C: es}\<close> does not throw and changes nothing but the log, which gets exactly one
  warning: no factory is registered and \<open>es\<close> is dropped. The same holds at the entry
  of \<open>C\<close> inside a larger group, whatever was processed before it and whatever follows.
\<close>

theorem registerExtensions_duplicate_category:
  assumes "registeredCategories s C = Some True"
    and "registerExtensionGroup cr sfx before s = Inr s1"
  shows "registerExtensionGroup cr sfx [(C, es)] s =
           Inr (s\<lparr>warnings := warnings s @ [warning C]\<rparr>) \<and>
         registerExtensionGroup cr sfx (before @ (C, es) # after) s =
           registerExtensionGroup cr sfx after (s1\<lparr>warnings := warnings s1 @ [warning C]\<rparr>)"
proof -
  have "registeredCategories s1 C = Some True"
    using assms(2,1) by (rule registerExtensionGroup_keeps_registered)
  then show ?thesis
    using assms
    by (simp add: registerExtensionGroup_append registerExtensionsForCategory_registered)
qed

theorem registerExtensions_duplicate_category_witness:
  "registeredCategories
     (\<lparr>app = [(''actions[]'', ([], Echo))], warnings = [],
       registeredCategories = [''actions'' \<mapsto> True]\<rparr> :: unit registrar) ''actions''
     = Some True \<and>
   registerExtensionGroup Map.empty ''[]'' []
     (\<lparr>app = [(''actions[]'', ([], Echo))], warnings = [],
       registeredCategories = [''actions'' \<mapsto> True]\<rparr> :: unit registrar)
     = Inr \<lparr>app = [(''actions[]'', ([], Echo))], warnings = [],
            registeredCategories = [''actions'' \<mapsto> True]\<rparr> \<and>
   registerExtensionGroup Map.empty ''[]''
     [(''actions'', [\<lparr>key = Some ''view'', depends = None, callable = None\<rparr>])]
     (\<lparr>app = [(''actions[]'', ([], Echo))], warnings = [],
       registeredCategories = [''actions'' \<mapsto> True]\<rparr> :: unit registrar)
     = Inr \<lparr>app = [(''actions[]'', ([], Echo))],
            warnings = [''Tried to register extensions for category actions more than once. Ignoring all but first set.''],
            registeredCategories = [''actions'' \<mapsto> True]\<rparr>"
  using registerExtensions_duplicate_category
      [of "\<lparr>app = [(''actions[]'', ([], Echo))], warnings = [],
            registeredCategories = [''actions'' \<mapsto> True]\<rparr> :: unit registrar"
        "''actions''" Map.empty "''[]''" "[]"
        "\<lparr>app = [(''actions[]'', ([], Echo))], warnings = [],
          registeredCategories = [''actions'' \<mapsto> True]\<rparr>"
        "[\<lparr>key = Some ''view'', depends = None, callable = None\<rparr>]" "[]"]
  by (simp add: warning_def)

text \<open>
  C3, as stated, fails for an extension that declares the empty string as its key: the
  source tests the key for truthiness, so the extension at index 2 of category
  \<open>types\<close> is registered as \<open>types[2]\<close>, not as \<open>types[-2]\<close>.
\<close>

theorem identify_empty_key_counterexample:
  "identify ''types'' (\<lparr>key = Some '''', depends = None, callable = None\<rparr> :: unit extension) 2
     = ''types[2]'' \<and>
   identify_as_specified ''types''
     (\<lparr>key = Some '''', depends = None, callable = None\<rparr> :: unit extension) 2
     = ''types[-2]'' \<and>
   identify ''types'' (\<lparr>key = Some '''', depends = None, callable = None\<rparr> :: unit extension) 2
     \<noteq> identify_as_specified ''types''
         (\<lparr>key = Some '''', depends = None, callable = None\<rparr> :: unit extension) 2"
  by (simp add: identify_def identify_as_specified_def string_of_nat.simps)

text \<open>
  C3, amended. The registration name of the extension at position \<open>index\<close> of a
  category is \<open>category[key-index]\<close> when the extension declares a non-empty key, and
  \<open>category[index]\<close> when it declares no key or the empty key; the index is written in
  decimal. In particular the extension \<open>{key: "k", depends: ["a", "b"]}\<close> at index 2 of
  category \<open>types\<close> is registered as \<open>types[k-2]\<close>.
\<close>

theorem identify_name:
  fixes extension :: "'v extension"
  shows "(key extension = Some k \<and> k \<noteq> [] \<longrightarrow>
      identify category extension index =
        category @ ''['' @ k @ ''-'' @ string_of_nat index @ '']'') \<and>
   (key extension = None \<or> key extension = Some [] \<longrightarrow>
      identify category extension index = category @ ''['' @ string_of_nat index @ '']'') \<and>
   identify ''types''
     (\<lparr>key = Some ''k'', depends = Some [''a'', ''b''], callable = None\<rparr> :: 'v extension) 2
     = ''types[k-2]''"
  by (auto simp: identify_def string_of_nat.simps)

theorem identify_name_witness:
  "key (\<lparr>key = Some ''copy'', depends = None, callable = None\<rparr> :: unit extension)
     = Some ''copy'' \<and> ''copy'' \<noteq> [] \<and>
   identify ''actions'' (\<lparr>key = Some ''copy'', depends = None, callable = None\<rparr> :: unit extension) 10
     = ''actions[copy-10]'' \<and>
   key (\<lparr>key = None, depends = None, callable = None\<rparr> :: unit extension) = None \<and>
   identify ''actions'' (\<lparr>key = None, depends = None, callable = None\<rparr> :: unit extension) 3
     = ''actions[3]''"
  using identify_name [of "\<lparr>key = Some ''copy'', depends = None, callable = None\<rparr> :: unit extension"
      "''copy''" "''actions''" 10]
    identify_name [of "\<lparr>key = None, depends = None, callable = None\<rparr> :: unit extension"
      "[]" "''actions''" 3]
  by (simp add: string_of_nat.simps)

text \<open>
  C4 does not hold of the source. Registering \<open>{types: [{key: "k"}]}\<close> on a new
  registrar registers the aggregate factory \<open>types[]\<close> as \<open>echo\<close>, depending on
  \<open>types[k-0]\<close>; but \<open>echo\<close> calls \<open>arguments.slice()\<close>, and the \<open>arguments\<close> object
  has no \<open>slice\<close> method, so invoking the factory raises a TypeError whatever the
  resolved extensions passed to it are.
\<close>

theorem aggregate_factory_throws:
  "map_sum id app
     (registerExtensionGroup Map.empty ''[]''
        [(''types'', [\<lparr>key = Some ''k'', depends = None, callable = None\<rparr>])]
        (ExtensionRegistrar :: 'v registrar)) =
   Inr [(''types[k-0]'', ([], StaticFunction \<lparr>key = Some ''k'', depends = None, callable = None\<rparr>)),
        (''types[]'', ([''types[k-0]''], Echo))] \<and>
   invoke (Echo :: 'v factory) resolved = Inl (TypeError ''slice is not a function'')"
  by (simp add: registerExtensionsForCategory_def registerExtension_def
      registerExtensionArraysForCategory_def ExtensionRegistrar_def identify_def
      makeServiceArgument_def echo_def slice_def string_of_nat.simps Let_def
      truthy_lookup_def object_prototype_members_def)

section \<open>Properties of the partial constructor\<close>

text \<open>
  C5 does not hold of the source. The function returned by \<open>PartialConstructor(F)\<close>
  starts with \<open>arguments.slice()\<close>, which raises a TypeError: for every constructor
  and every dependency list the first stage throws, and no second-stage function is
  ever returned.
\<close>

theorem PartialConstructor_throws:
  "PartialConstructor F d = Inl (TypeError ''slice is not a function'')"
  by (simp add: PartialConstructor_def slice_def)

section \<open>Properties of the copy policy\<close>

text \<open>
  C8. \<open>allow\<close> returns true when the action's metadata key is not \<open>copy\<close>. When it is
  \<open>copy\<close>, \<open>allow\<close> returns true exactly when the target object, which is
  \<open>context.selectedObject\<close> or else \<open>context.domainObject\<close>, exists and has a
  \<open>type\<close> capability with the feature \<open>creation\<close>.
\<close>

theorem allow_copy:
  "(metadata_key (getMetadata action) \<noteq> Some ''copy'' \<longrightarrow> allow action context) \<and>
   (metadata_key (getMetadata action) = Some ''copy'' \<longrightarrow>
      allow action context =
        (\<exists>target type.
           (case ctx_selectedObject context of
              Some obj \<Rightarrow> Some obj
            | None \<Rightarrow> ctx_domainObject context) = Some target \<and>
           getCapability target ''type'' = Some type \<and>
           hasFeature type ''creation''))"
  by (auto simp: allow_def allowCreation_def selectedObject_def split: option.splits)

theorem allow_copy_witness:
  "metadata_key (getMetadata \<lparr>getMetadata = \<lparr>metadata_key = Some ''move''\<rparr>\<rparr>) \<noteq> Some ''copy'' \<and>
   allow \<lparr>getMetadata = \<lparr>metadata_key = Some ''move''\<rparr>\<rparr>
     \<lparr>ctx_selectedObject = None, ctx_domainObject = None\<rparr> \<and>
   metadata_key (getMetadata \<lparr>getMetadata = \<lparr>metadata_key = Some ''copy''\<rparr>\<rparr>) = Some ''copy'' \<and>
   allow \<lparr>getMetadata = \<lparr>metadata_key = Some ''copy''\<rparr>\<rparr>
     \<lparr>ctx_selectedObject = None,
      ctx_domainObject = Some \<lparr>getCapability = (\<lambda>n. if n = ''type''
         then Some \<lparr>hasFeature = (\<lambda>f. f = ''creation'')\<rparr> else None)\<rparr>\<rparr> \<and>
   \<not> allow \<lparr>getMetadata = \<lparr>metadata_key = Some ''copy''\<rparr>\<rparr>
     \<lparr>ctx_selectedObject = Some \<lparr>getCapability = (\<lambda>n. None)\<rparr>,
      ctx_domainObject = Some \<lparr>getCapability = (\<lambda>n. if n = ''type''
         then Some \<lparr>hasFeature = (\<lambda>f. f = ''creation'')\<rparr> else None)\<rparr>\<rparr>"
  using allow_copy [of "\<lparr>getMetadata = \<lparr>metadata_key = Some ''move''\<rparr>\<rparr>"
      "\<lparr>ctx_selectedObject = None, ctx_domainObject = None\<rparr>"]
    allow_copy [of "\<lparr>getMetadata = \<lparr>metadata_key = Some ''copy''\<rparr>\<rparr>"
      "\<lparr>ctx_selectedObject = None,
        ctx_domainObject = Some \<lparr>getCapability = (\<lambda>n. if n = ''type''
          then Some \<lparr>hasFeature = (\<lambda>f. f = ''creation'')\<rparr> else None)\<rparr>\<rparr>"]
    allow_copy [of "\<lparr>getMetadata = \<lparr>metadata_key = Some ''copy''\<rparr>\<rparr>"
      "\<lparr>ctx_selectedObject = Some \<lparr>getCapability = (\<lambda>n. None)\<rparr>,
        ctx_domainObject = Some \<lparr>getCapability = (\<lambda>n. if n = ''type''
          then Some \<lparr>hasFeature = (\<lambda>f. f = ''creation'')\<rparr> else None)\<rparr>\<rparr>"]
  by simp

section \<open>Properties of the table configuration\<close>

lemma fold_addColumn_domains:
  "fold (\<lambda>domainMetadata s1.
           addColumn (DomainColumn domainMetadata (telemetryFormatter s1)) None s1) ds s =
   s\<lparr>columns := columns s @ map (\<lambda>d. DomainColumn d (telemetryFormatter s)) ds\<rparr>"
  by (induction ds arbitrary: s) (simp_all add: addColumn_def)

lemma fold_addColumn_ranges:
  "fold (\<lambda>rangeMetadata s2.
           addColumn (RangeColumn rangeMetadata (telemetryFormatter s2)) None s2) rs s =
   s\<lparr>columns := columns s @ map (\<lambda>r. RangeColumn r (telemetryFormatter s)) rs\<rparr>"
  by (induction rs arbitrary: s) (simp_all add: addColumn_def)

lemma fold_metadata:
  "fold (\<lambda>metadatum s.
           fold (\<lambda>rangeMetadata s2.
                   addColumn (RangeColumn rangeMetadata (telemetryFormatter s2)) None s2)
             (case ranges metadatum of Some rs \<Rightarrow> rs | None \<Rightarrow> [])
             (fold (\<lambda>domainMetadata s1.
                      addColumn (DomainColumn domainMetadata (telemetryFormatter s1)) None s1)
                (case domains metadatum of Some ds \<Rightarrow> ds | None \<Rightarrow> [])
                s))
     md s =
   s\<lparr>columns := columns s @ concat (map (metadatum_columns (telemetryFormatter s)) md)\<rparr>"
  by (induction md arbitrary: s)
    (simp_all add: fold_addColumn_domains fold_addColumn_ranges metadatum_columns_def)

lemma buildColumns_Some:
  "buildColumns (Some md) self =
     self\<lparr>columns :=
            (if concat (map (metadatum_columns (telemetryFormatter self)) md) = [] then []
             else NameColumn # concat (map (metadatum_columns (telemetryFormatter self)) md))\<rparr>"
  unfolding buildColumns_def fold_metadata
  by (simp add: addColumn_def Let_def)

lemma buildColumns_None: "buildColumns None self = self\<lparr>columns := []\<rparr>"
  by (simp add: buildColumns_def)

text \<open>
  C6, as stated, fails in three ways. With two metadata entries, each with a domain and
  a range, the range column of the first entry comes before the domain column of the
  second: the domains are not all first. With one range in the first entry and one
  domain in the second, the three columns are name, range, domain. With an empty
  metadata list no name column is made at all.
\<close>

theorem buildColumns_order_counterexample:
  "columns (buildColumns
      (Some [\<lparr>domains = Some [''d1''], ranges = Some [''r1'']\<rparr>,
             \<lparr>domains = Some [''d2''], ranges = Some [''r2'']\<rparr>])
      \<lparr>domainObject = \<lparr>getModel = \<lparr>configuration = None\<rparr>, mutations = 0\<rparr>,
       columns = [], columnConfiguration = fmempty, telemetryFormatter = ()\<rparr>)
     = [NameColumn, DomainColumn ''d1'' (), RangeColumn ''r1'' (),
        DomainColumn ''d2'' (), RangeColumn ''r2'' ()] \<and>
   columns_as_specified ()
      [\<lparr>domains = Some [''d1''], ranges = Some [''r1'']\<rparr>,
       \<lparr>domains = Some [''d2''], ranges = Some [''r2'']\<rparr>]
     = [NameColumn, DomainColumn ''d1'' (), DomainColumn ''d2'' (),
        RangeColumn ''r1'' (), RangeColumn ''r2'' ()] \<and>
   columns (buildColumns
      (Some [\<lparr>domains = None, ranges = Some [''r'']\<rparr>,
             \<lparr>domains = Some [''d''], ranges = None\<rparr>])
      \<lparr>domainObject = \<lparr>getModel = \<lparr>configuration = None\<rparr>, mutations = 0\<rparr>,
       columns = [], columnConfiguration = fmempty, telemetryFormatter = ()\<rparr>)
     = [NameColumn, RangeColumn ''r'' (), DomainColumn ''d'' ()] \<and>
   columns_as_specified ()
      [\<lparr>domains = None, ranges = Some [''r'']\<rparr>,
       \<lparr>domains = Some [''d''], ranges = None\<rparr>]
     = [NameColumn, DomainColumn ''d'' (), RangeColumn ''r'' ()] \<and>
   columns (buildColumns (Some ([] :: string metadatum list))
      \<lparr>domainObject = \<lparr>getModel = \<lparr>configuration = None\<rparr>, mutations = 0\<rparr>,
       columns = [], columnConfiguration = fmempty, telemetryFormatter = ()\<rparr>)
     = [] \<and>
   columns_as_specified () ([] :: string metadatum list) = [NameColumn]"
  by (simp add: buildColumns_def addColumn_def columns_as_specified_def)

lemma concat_metadatum_columns_filter:
  "concat (map (metadatum_columns fmt)
     (filter (\<lambda>m. (case domains m of Some ds \<Rightarrow> ds | None \<Rightarrow> []) \<noteq> [] \<or>
                  (case ranges m of Some rs \<Rightarrow> rs | None \<Rightarrow> []) \<noteq> []) md)) =
   concat (map (metadatum_columns fmt) md)"
  by (induction md) (auto simp: metadatum_columns_def)

lemma one_domain_then_one_range:
  assumes "map (\<lambda>m. (case domains m of Some ds \<Rightarrow> ds | None \<Rightarrow> [],
                     case ranges m of Some rs \<Rightarrow> rs | None \<Rightarrow> []))
             (filter (\<lambda>m. (case domains m of Some ds \<Rightarrow> ds | None \<Rightarrow> []) \<noteq> [] \<or>
                          (case ranges m of Some rs \<Rightarrow> rs | None \<Rightarrow> []) \<noteq> []) md)
           \<in> {[([d], [r])], [([d], []), ([], [r])]}"
  shows "concat (map (metadatum_columns fmt) md) = [DomainColumn d fmt, RangeColumn r fmt]"
proof -
  let ?pairs = "\<lambda>m. (case domains m of Some ds \<Rightarrow> ds | None \<Rightarrow> [],
                     case ranges m of Some rs \<Rightarrow> rs | None \<Rightarrow> [])"
  let ?md = "filter (\<lambda>m. (case domains m of Some ds \<Rightarrow> ds | None \<Rightarrow> []) \<noteq> [] \<or>
                          (case ranges m of Some rs \<Rightarrow> rs | None \<Rightarrow> []) \<noteq> []) md"
  have cols: "map (metadatum_columns fmt) ?md =
      map (\<lambda>(ds, rs). map (\<lambda>d. DomainColumn d fmt) ds @ map (\<lambda>r. RangeColumn r fmt) rs)
        (map ?pairs ?md)"
    by (simp add: metadatum_columns_def)
  from assms have "concat (map (metadatum_columns fmt) ?md)
      = [DomainColumn d fmt, RangeColumn r fmt]"
    unfolding cols by auto
  then show ?thesis by (simp only: concat_metadatum_columns_filter)
qed

text \<open>
  C6, amended. For every metadata list, \<open>buildColumns\<close> produces, for each metadatum in
  order, the domain columns of that metadatum followed by its range columns, and, when
  at least one such column was produced, a name column in front of them all. In
  particular, metadata with one domain and one range column, the range not in an earlier
  metadatum than the domain, yields exactly the three columns name, domain, range: the
  metadata entries that have any domain or range are either one entry with the domain
  and the range, or an entry with the domain followed by an entry with the range.
\<close>

theorem buildColumns_columns:
  "columns (buildColumns (Some md) self) =
     (if \<exists>m \<in> set md. metadatum_columns (telemetryFormatter self) m \<noteq> []
      then NameColumn # concat (map (metadatum_columns (telemetryFormatter self)) md)
      else []) \<and>
   metadatum_columns (telemetryFormatter self) m =
     map (\<lambda>d. DomainColumn d (telemetryFormatter self))
       (case domains m of Some ds \<Rightarrow> ds | None \<Rightarrow> [])
     @ map (\<lambda>r. RangeColumn r (telemetryFormatter self))
         (case ranges m of Some rs \<Rightarrow> rs | None \<Rightarrow> []) \<and>
   columns (buildColumns (Some [\<lparr>domains = Some [d], ranges = Some [r]\<rparr>]) self) =
     [NameColumn, DomainColumn d (telemetryFormatter self),
      RangeColumn r (telemetryFormatter self)] \<and>
   (map (\<lambda>m. (case domains m of Some ds \<Rightarrow> ds | None \<Rightarrow> [],
              case ranges m of Some rs \<Rightarrow> rs | None \<Rightarrow> []))
      (filter (\<lambda>m. (case domains m of Some ds \<Rightarrow> ds | None \<Rightarrow> []) \<noteq> [] \<or>
                   (case ranges m of Some rs \<Rightarrow> rs | None \<Rightarrow> []) \<noteq> []) md)
      \<in> {[([d], [r])], [([d], []), ([], [r])]} \<longrightarrow>
    columns (buildColumns (Some md) self) =
      [NameColumn, DomainColumn d (telemetryFormatter self),
       RangeColumn r (telemetryFormatter self)])"
proof (intro conjI impI)
  show "columns (buildColumns (Some md) self) =
     (if \<exists>m \<in> set md. metadatum_columns (telemetryFormatter self) m \<noteq> []
      then NameColumn # concat (map (metadatum_columns (telemetryFormatter self)) md)
      else [])"
    by (auto simp: buildColumns_Some)
next
  show "metadatum_columns (telemetryFormatter self) m =
     map (\<lambda>d. DomainColumn d (telemetryFormatter self))
       (case domains m of Some ds \<Rightarrow> ds | None \<Rightarrow> [])
     @ map (\<lambda>r. RangeColumn r (telemetryFormatter self))
         (case ranges m of Some rs \<Rightarrow> rs | None \<Rightarrow> [])"
    by (simp add: metadatum_columns_def)
next
  show "columns (buildColumns (Some [\<lparr>domains = Some [d], ranges = Some [r]\<rparr>]) self) =
     [NameColumn, DomainColumn d (telemetryFormatter self),
      RangeColumn r (telemetryFormatter self)]"
    by (simp add: buildColumns_Some metadatum_columns_def)
next
  assume "map (\<lambda>m. (case domains m of Some ds \<Rightarrow> ds | None \<Rightarrow> [],
              case ranges m of Some rs \<Rightarrow> rs | None \<Rightarrow> []))
      (filter (\<lambda>m. (case domains m of Some ds \<Rightarrow> ds | None \<Rightarrow> []) \<noteq> [] \<or>
                   (case ranges m of Some rs \<Rightarrow> rs | None \<Rightarrow> []) \<noteq> []) md)
      \<in> {[([d], [r])], [([d], []), ([], [r])]}"
  then have "concat (map (metadatum_columns (telemetryFormatter self)) md) =
      [DomainColumn d (telemetryFormatter self), RangeColumn r (telemetryFormatter self)]"
    by (rule one_domain_then_one_range)
  then show "columns (buildColumns (Some md) self) =
      [NameColumn, DomainColumn d (telemetryFormatter self),
       RangeColumn r (telemetryFormatter self)]"
    by (simp add: buildColumns_Some)
qed

theorem buildColumns_columns_witness:
  "(\<exists>m \<in> set [\<lparr>domains = Some [''utc'', ''local''], ranges = None\<rparr>,
                \<lparr>domains = None, ranges = Some [''sin'']\<rparr>].
      metadatum_columns () m \<noteq> []) \<and>
   columns (buildColumns
      (Some [\<lparr>domains = Some [''utc'', ''local''], ranges = None\<rparr>,
             \<lparr>domains = None, ranges = Some [''sin'']\<rparr>])
      \<lparr>domainObject = \<lparr>getModel = \<lparr>configuration = None\<rparr>, mutations = 0\<rparr>,
       columns = [RangeColumn ''old'' ()], columnConfiguration = fmempty,
       telemetryFormatter = ()\<rparr>)
     = [NameColumn, DomainColumn ''utc'' (), DomainColumn ''local'' (),
        RangeColumn ''sin'' ()] \<and>
   map (\<lambda>m. (case domains m of Some ds \<Rightarrow> ds | None \<Rightarrow> [],
             case ranges m of Some rs \<Rightarrow> rs | None \<Rightarrow> []))
     (filter (\<lambda>m. (case domains m of Some ds \<Rightarrow> ds | None \<Rightarrow> []) \<noteq> [] \<or>
                  (case ranges m of Some rs \<Rightarrow> rs | None \<Rightarrow> []) \<noteq> [])
        [\<lparr>domains = None, ranges = Some []\<rparr>,
         \<lparr>domains = Some [''utc''], ranges = None\<rparr>,
         \<lparr>domains = Some [], ranges = Some [''sin'']\<rparr>])
     = [([''utc''], []), ([], [''sin''])] \<and>
   columns (buildColumns
      (Some [\<lparr>domains = None, ranges = Some []\<rparr>,
             \<lparr>domains = Some [''utc''], ranges = None\<rparr>,
             \<lparr>domains = Some [], ranges = Some [''sin'']\<rparr>])
      \<lparr>domainObject = \<lparr>getModel = \<lparr>configuration = None\<rparr>, mutations = 0\<rparr>,
       columns = [], columnConfiguration = fmempty, telemetryFormatter = ()\<rparr>)
     = [NameColumn, DomainColumn ''utc'' (), RangeColumn ''sin'' ()]"
  using buildColumns_columns
      [of "[\<lparr>domains = Some [''utc'', ''local''], ranges = None\<rparr>,
            \<lparr>domains = None, ranges = Some [''sin'']\<rparr>]"
          "\<lparr>domainObject = \<lparr>getModel = \<lparr>configuration = None\<rparr>, mutations = 0\<rparr>,
            columns = [RangeColumn ''old'' ()], columnConfiguration = fmempty,
            telemetryFormatter = ()\<rparr>"
          "\<lparr>domains = None, ranges = Some [''sin'']\<rparr>" "''d''" "''r''"]
    buildColumns_columns
      [of "[\<lparr>domains = None, ranges = Some []\<rparr>,
            \<lparr>domains = Some [''utc''], ranges = None\<rparr>,
            \<lparr>domains = Some [], ranges = Some [''sin'']\<rparr>]"
          "\<lparr>domainObject = \<lparr>getModel = \<lparr>configuration = None\<rparr>, mutations = 0\<rparr>,
            columns = [], columnConfiguration = fmempty, telemetryFormatter = ()\<rparr>"
          "\<lparr>domains = None, ranges = Some [''sin'']\<rparr>" "''utc''" "''sin''"]
  by (simp add: metadatum_columns_def)

text \<open>
  C10. When the metadata is absent, or when no metadatum has a domain or a range entry,
  \<open>buildColumns\<close> leaves the column list empty and changes nothing else. A name column
  is among the columns built only if some metadatum has at least one domain or range
  entry.
\<close>

theorem buildColumns_empty:
  "buildColumns None self = self\<lparr>columns := []\<rparr> \<and>
   ((\<forall>m \<in> set md. (domains m = None \<or> domains m = Some []) \<and>
                   (ranges m = None \<or> ranges m = Some [])) \<longrightarrow>
      buildColumns (Some md) self = self\<lparr>columns := []\<rparr>) \<and>
   (NameColumn \<in> set (columns (buildColumns metadata self)) \<longrightarrow>
      (\<exists>md m. metadata = Some md \<and> m \<in> set md \<and>
         ((\<exists>d ds. domains m = Some (d # ds)) \<or> (\<exists>r rs. ranges m = Some (r # rs)))))"
proof (intro conjI impI)
  show "buildColumns None self = self\<lparr>columns := []\<rparr>" by (rule buildColumns_None)
next
  assume "\<forall>m \<in> set md. (domains m = None \<or> domains m = Some []) \<and>
                   (ranges m = None \<or> ranges m = Some [])"
  then have "concat (map (metadatum_columns (telemetryFormatter self)) md) = []"
    by (auto simp: metadatum_columns_def)
  then show "buildColumns (Some md) self = self\<lparr>columns := []\<rparr>"
    by (simp add: buildColumns_Some)
next
  assume name: "NameColumn \<in> set (columns (buildColumns metadata self))"
  then obtain md where md: "metadata = Some md"
    by (cases metadata) (auto simp: buildColumns_None)
  with name have "concat (map (metadatum_columns (telemetryFormatter self)) md) \<noteq> []"
    by (auto simp: buildColumns_Some split: if_splits)
  then obtain m where m: "m \<in> set md" "metadatum_columns (telemetryFormatter self) m \<noteq> []"
    by auto
  from m(2) have "(\<exists>d ds. domains m = Some (d # ds)) \<or> (\<exists>r rs. ranges m = Some (r # rs))"
    by (auto simp: metadatum_columns_def neq_Nil_conv split: option.splits)
  with md m(1) show "\<exists>md m. metadata = Some md \<and> m \<in> set md \<and>
         ((\<exists>d ds. domains m = Some (d # ds)) \<or> (\<exists>r rs. ranges m = Some (r # rs)))"
    by blast
qed

theorem buildColumns_empty_witness:
  "list_all (\<lambda>m. (domains m = None \<or> domains m = Some []) \<and>
                 (ranges m = None \<or> ranges m = Some []))
     [\<lparr>domains = None, ranges = Some ([] :: string list)\<rparr>,
      \<lparr>domains = Some [], ranges = None\<rparr>] \<and>
   buildColumns
      (Some [\<lparr>domains = None, ranges = Some ([] :: string list)\<rparr>,
             \<lparr>domains = Some [], ranges = None\<rparr>])
      \<lparr>domainObject = \<lparr>getModel = \<lparr>configuration = None\<rparr>, mutations = 0\<rparr>,
       columns = [RangeColumn ''old'' ()], columnConfiguration = fmempty,
       telemetryFormatter = ()\<rparr>
     = \<lparr>domainObject = \<lparr>getModel = \<lparr>configuration = None\<rparr>, mutations = 0\<rparr>,
        columns = [], columnConfiguration = fmempty, telemetryFormatter = ()\<rparr> \<and>
   NameColumn \<in> set (columns (buildColumns
      (Some [\<lparr>domains = Some [''utc''], ranges = None\<rparr>])
      \<lparr>domainObject = \<lparr>getModel = \<lparr>configuration = None\<rparr>, mutations = 0\<rparr>,
       columns = [], columnConfiguration = fmempty, telemetryFormatter = ()\<rparr>)) \<and>
   (\<exists>md m. Some [\<lparr>domains = Some [''utc''], ranges = None\<rparr>] = Some md \<and> m \<in> set md \<and>
      ((\<exists>d ds. domains m = Some (d # ds)) \<or> (\<exists>r rs. ranges m = Some (r # rs))))"
proof -
  have name: "NameColumn \<in> set (columns (buildColumns
      (Some [\<lparr>domains = Some [''utc''], ranges = None\<rparr>])
      \<lparr>domainObject = \<lparr>getModel = \<lparr>configuration = None\<rparr>, mutations = 0\<rparr>,
       columns = [], columnConfiguration = fmempty, telemetryFormatter = ()\<rparr>))"
    by (simp add: buildColumns_def addColumn_def)
  show ?thesis
    using name
      buildColumns_empty
        [of "\<lparr>domainObject = \<lparr>getModel = \<lparr>configuration = None\<rparr>, mutations = 0\<rparr>,
              columns = [RangeColumn ''old'' ()], columnConfiguration = fmempty,
              telemetryFormatter = ()\<rparr>"
            "[\<lparr>domains = None, ranges = Some ([] :: string list)\<rparr>,
              \<lparr>domains = Some [], ranges = None\<rparr>]" "None"]
      buildColumns_empty
        [of "\<lparr>domainObject = \<lparr>getModel = \<lparr>configuration = None\<rparr>, mutations = 0\<rparr>,
              columns = [], columnConfiguration = fmempty, telemetryFormatter = ()\<rparr>"
            "[]" "Some [\<lparr>domains = Some [''utc''], ranges = None\<rparr>]"]
    by simp
qed

lemma equal_config_iff: "equal_config a b \<longleftrightarrow> a = b"
proof
  assume eq: "equal_config a b"
  then have card: "fcard (fmdom a) = fcard (fmdom b)"
    and vals: "\<And>k. k |\<in>| fmdom a \<Longrightarrow> fmlookup a k = fmlookup b k"
    by (auto simp: equal_config_def Let_def)
  have "fmdom a |\<subseteq>| fmdom b"
  proof
    fix k assume k: "k |\<in>| fmdom a"
    then have "fmlookup a k \<noteq> None" by (auto dest: fmdom_notI)
    with vals [OF k] have "fmlookup b k \<noteq> None" by simp
    then show "k |\<in>| fmdom b" by (auto intro: fmdomI)
  qed
  with card have dom: "fmdom a = fmdom b" by (simp add: fcard_seteq)
  show "a = b"
  proof (rule fmap_ext)
    fix k
    show "fmlookup a k = fmlookup b k"
    proof (cases "k |\<in>| fmdom a")
      case True
      then show ?thesis by (rule vals)
    next
      case False
      with dom show ?thesis by (simp add: fmdom_notD)
    qed
  qed
next
  assume "a = b"
  then show "equal_config a b" by (simp add: equal_config_def)
qed

lemma shallow_equal_iff: "shallow_equal a b \<longleftrightarrow> a = b"
proof
  assume eq: "shallow_equal a b"
  show "a = b"
  proof (rule fmap_ext)
    fix k
    show "fmlookup a k = fmlookup b k"
    proof (cases "k |\<in>| fmdom a")
      case True
      with eq show ?thesis by (simp add: shallow_equal_def)
    next
      case False
      with eq show ?thesis by (simp add: shallow_equal_def fmdom_notD)
    qed
  qed
next
  assume "a = b"
  then show "shallow_equal a b" by (simp add: shallow_equal_def)
qed

text \<open>
  C7. The test \<open>equal\<close> of the source is shallow key-wise equality: the same key set
  and an identical value per key. When the new column configuration differs from the
  stored one, \<open>saveColumnConfiguration\<close> invokes the mutation capability of the
  domain object once, the model's \<open>configuration.table.columns\<close> becomes the new
  configuration, and the stored one is replaced by it. When the two are equal, nothing
  changes: no mutation, the same model, the same stored configuration.
\<close>

theorem saveColumnConfiguration_iff:
  "equal_config (columnConfiguration self) c = shallow_equal (columnConfiguration self) c \<and>
   (\<not> shallow_equal (columnConfiguration self) c \<longrightarrow>
      mutations (domainObject (saveColumnConfiguration c self))
        = Suc (mutations (domainObject self)) \<and>
      columnConfiguration (saveColumnConfiguration c self) = c \<and>
      Option.bind (Option.bind
          (configuration (getModel (domainObject (saveColumnConfiguration c self)))) table)
        table_columns = Some c) \<and>
   (shallow_equal (columnConfiguration self) c \<longrightarrow> saveColumnConfiguration c self = self)"
  by (simp add: equal_config_iff shallow_equal_iff saveColumnConfiguration_def
      useCapability_mutation_def columnMutator_def Let_def)

theorem saveColumnConfiguration_iff_witness:
  "\<not> shallow_equal
       (columnConfiguration
          (\<lparr>domainObject = \<lparr>getModel = \<lparr>configuration = None\<rparr>, mutations = 0\<rparr>,
            columns = [], columnConfiguration = fmempty, telemetryFormatter = ()\<rparr>
           :: (unit, unit) TableConfiguration))
       (fmupd ''Time'' True fmempty) \<and>
   saveColumnConfiguration (fmupd ''Time'' True fmempty)
     (\<lparr>domainObject = \<lparr>getModel = \<lparr>configuration = None\<rparr>, mutations = 0\<rparr>,
       columns = [], columnConfiguration = fmempty, telemetryFormatter = ()\<rparr>
      :: (unit, unit) TableConfiguration)
   = \<lparr>domainObject =
        \<lparr>getModel = \<lparr>configuration = Some \<lparr>table = Some
            \<lparr>table_columns = Some (fmupd ''Time'' True fmempty)\<rparr>\<rparr>\<rparr>,
         mutations = 1\<rparr>,
      columns = [], columnConfiguration = fmupd ''Time'' True fmempty,
      telemetryFormatter = ()\<rparr> \<and>
   shallow_equal
       (columnConfiguration
          (\<lparr>domainObject = \<lparr>getModel = \<lparr>configuration = None\<rparr>, mutations = 0\<rparr>,
            columns = [], columnConfiguration = fmupd ''Time'' True fmempty,
            telemetryFormatter = ()\<rparr> :: (unit, unit) TableConfiguration))
       (fmupd ''Time'' True fmempty) \<and>
   saveColumnConfiguration (fmupd ''Time'' True fmempty)
     (\<lparr>domainObject = \<lparr>getModel = \<lparr>configuration = None\<rparr>, mutations = 0\<rparr>,
       columns = [], columnConfiguration = fmupd ''Time'' True fmempty,
       telemetryFormatter = ()\<rparr> :: (unit, unit) TableConfiguration)
   = \<lparr>domainObject = \<lparr>getModel = \<lparr>configuration = None\<rparr>, mutations = 0\<rparr>,
      columns = [], columnConfiguration = fmupd ''Time'' True fmempty,
      telemetryFormatter = ()\<rparr>"
proof -
  have differs: "\<not> shallow_equal
       (columnConfiguration
          (\<lparr>domainObject = \<lparr>getModel = \<lparr>configuration = None\<rparr>, mutations = 0\<rparr>,
            columns = [], columnConfiguration = fmempty, telemetryFormatter = ()\<rparr>
           :: (unit, unit) TableConfiguration))
       (fmupd ''Time'' True fmempty)"
    by (auto simp: shallow_equal_def)
  have same: "shallow_equal
       (columnConfiguration
          (\<lparr>domainObject = \<lparr>getModel = \<lparr>configuration = None\<rparr>, mutations = 0\<rparr>,
            columns = [], columnConfiguration = fmupd ''Time'' True fmempty,
            telemetryFormatter = ()\<rparr> :: (unit, unit) TableConfiguration))
       (fmupd ''Time'' True fmempty)"
    by (simp add: shallow_equal_def)
  show ?thesis
    using differs same
      saveColumnConfiguration_iff
        [of "\<lparr>domainObject = \<lparr>getModel = \<lparr>configuration = None\<rparr>, mutations = 0\<rparr>,
              columns = [], columnConfiguration = fmempty, telemetryFormatter = ()\<rparr>
             :: (unit, unit) TableConfiguration" "fmupd ''Time'' True fmempty"]
      saveColumnConfiguration_iff
        [of "\<lparr>domainObject = \<lparr>getModel = \<lparr>configuration = None\<rparr>, mutations = 0\<rparr>,
              columns = [], columnConfiguration = fmupd ''Time'' True fmempty,
              telemetryFormatter = ()\<rparr> :: (unit, unit) TableConfiguration"
            "fmupd ''Time'' True fmempty"]
    by (simp add: saveColumnConfiguration_def useCapability_mutation_def columnMutator_def)
qed

lemma rowStep_keeps:
  assumes "rowObject t = Some v" and "cell_text v = Some s" and "s \<noteq> []"
  shows "rowStep getTitle getValue tobj datum rowObject column i t = Some v"
  using assms by (auto simp: rowStep_def Let_def)

lemma reduce_rowStep_keeps:
  assumes "rowObject t = Some v" and "cell_text v = Some s" and "s \<noteq> []"
  shows "reduce (rowStep getTitle getValue tobj datum) cols i rowObject t = Some v"
  using assms
proof (induction cols arbitrary: i rowObject)
  case Nil
  then show ?case by simp
next
  case (Cons column cols)
  have "rowStep getTitle getValue tobj datum rowObject column i t = Some v"
    using Cons.prems by (rule rowStep_keeps)
  then show ?case
    using Cons.prems(2,3) by (simp add: Cons.IH)
qed

lemma reduce_append:
  "reduce f (xs @ ys) i acc = reduce f ys (i + length xs) (reduce f xs i acc)"
  by (induction xs arbitrary: i acc) simp_all

lemma rowStep_key:
  assumes "rowStep getTitle getValue tobj datum rowObject column i t = Some v"
  shows "rowObject t = Some v \<or>
         t = (if truthy_string (getTitle column) then the (getTitle column)
              else ''Column '' @ string_of_nat (i + 1))"
  using assms by (auto simp: rowStep_def Let_def split: if_splits)

lemma reduce_rowStep_key:
  assumes "reduce (rowStep getTitle getValue tobj datum) cols i rowObject t = Some v"
  shows "rowObject t = Some v \<or>
         (\<exists>j < length cols.
            t = (if truthy_string (getTitle (cols ! j)) then the (getTitle (cols ! j))
                 else ''Column '' @ string_of_nat (i + j + 1)))"
  using assms
proof (induction cols arbitrary: i rowObject)
  case Nil
  then show ?case by simp
next
  case (Cons column cols)
  let ?row = "rowStep getTitle getValue tobj datum rowObject column i"
  from Cons.prems have "reduce (rowStep getTitle getValue tobj datum) cols (Suc i) ?row t = Some v"
    by simp
  from Cons.IH [OF this] consider
    (kept) "?row t = Some v"
    | (later) j where "j < length cols"
        "t = (if truthy_string (getTitle (cols ! j)) then the (getTitle (cols ! j))
              else ''Column '' @ string_of_nat (Suc i + j + 1))"
    by blast
  then show ?case
  proof cases
    case kept
    from rowStep_key [OF kept] show ?thesis
    proof
      assume "rowObject t = Some v"
      then show ?thesis by simp
    next
      assume "t = (if truthy_string (getTitle column) then the (getTitle column)
              else ''Column '' @ string_of_nat (i + 1))"
      then have "0 < length (column # cols) \<and>
            t = (if truthy_string (getTitle ((column # cols) ! 0))
                 then the (getTitle ((column # cols) ! 0))
                 else ''Column '' @ string_of_nat (i + 0 + 1))"
        by simp
      then show ?thesis by blast
    qed
  next
    case later
    then have "Suc j < length (column # cols) \<and>
            t = (if truthy_string (getTitle ((column # cols) ! Suc j))
                 then the (getTitle ((column # cols) ! Suc j))
                 else ''Column '' @ string_of_nat (i + Suc j + 1))"
      by simp
    then show ?thesis by blast
  qed
qed

lemma getRowValues_key:
  assumes "getRowValues getTitle getValue cols tobj datum t = Some v"
  shows "\<exists>j < length cols.
            t = (if truthy_string (getTitle (cols ! j)) then the (getTitle (cols ! j))
                 else ''Column '' @ string_of_nat (j + 1))"
proof -
  from assms have "reduce (rowStep getTitle getValue tobj datum) cols 0 Map.empty t = Some v"
    by (simp add: getRowValues_def)
  from reduce_rowStep_key [OF this] obtain j where "j < length cols"
    "t = (if truthy_string (getTitle (cols ! j)) then the (getTitle (cols ! j))
          else ''Column '' @ string_of_nat (0 + j + 1))"
    by auto
  then show ?thesis by (intro exI [of _ j]) simp
qed

text \<open>
  C9. Every key of the object \<open>getRowValues\<close> returns is the title of one of the
  columns (its \<open>getTitle\<close>, or \<open>Column n\<close> for the \<open>n\<close>-th column when that is
  undefined or empty). A value recorded under a title by the columns processed so far,
  whose text is defined and not empty, is still the value under that title after any
  further columns are processed. One step of the reduction changes the entry of a title
  only if that entry was undefined, or its text was undefined or empty.
\<close>

theorem getRowValues_keeps_text:
  "(getRowValues getTitle getValue cols tobj datum t = Some v \<longrightarrow>
      (\<exists>j < length cols.
         t = (if truthy_string (getTitle (cols ! j)) then the (getTitle (cols ! j))
              else ''Column '' @ string_of_nat (j + 1)))) \<and>
   (getRowValues getTitle getValue cols tobj datum t = Some v \<and>
    cell_text v = Some s \<and> s \<noteq> [] \<longrightarrow>
      getRowValues getTitle getValue (cols @ later) tobj datum t = Some v) \<and>
   (rowStep getTitle getValue tobj datum rowObject column i t \<noteq> rowObject t \<longrightarrow>
      rowObject t = None \<or>
      (\<exists>recorded. rowObject t = Some recorded \<and>
         (cell_text recorded = None \<or> cell_text recorded = Some [])))"
proof (intro conjI impI)
  assume "getRowValues getTitle getValue cols tobj datum t = Some v"
  then show "\<exists>j < length cols.
         t = (if truthy_string (getTitle (cols ! j)) then the (getTitle (cols ! j))
              else ''Column '' @ string_of_nat (j + 1))"
    by (rule getRowValues_key)
next
  assume "getRowValues getTitle getValue cols tobj datum t = Some v \<and>
    cell_text v = Some s \<and> s \<noteq> []"
  then show "getRowValues getTitle getValue (cols @ later) tobj datum t = Some v"
    by (simp add: getRowValues_def reduce_append reduce_rowStep_keeps)
next
  assume "rowStep getTitle getValue tobj datum rowObject column i t \<noteq> rowObject t"
  then show "rowObject t = None \<or>
      (\<exists>recorded. rowObject t = Some recorded \<and>
         (cell_text recorded = None \<or> cell_text recorded = Some []))"
    by (auto simp: rowStep_def Let_def split: option.splits if_splits)
qed

theorem getRowValues_keeps_text_witness:
  "getRowValues fst (\<lambda>c t d. snd c)
     [(Some ''Time'', Some \<lparr>cell_text = Some ''''\<rparr>),
      (Some ''Time'', Some \<lparr>cell_text = Some ''12:00''\<rparr>)] () () ''Time''
     = Some \<lparr>cell_text = Some ''12:00''\<rparr> \<and>
   cell_text \<lparr>cell_text = Some ''12:00''\<rparr> = Some ''12:00'' \<and> ''12:00'' \<noteq> [] \<and>
   getRowValues fst (\<lambda>c t d. snd c)
     ([(Some ''Time'', Some \<lparr>cell_text = Some ''''\<rparr>),
       (Some ''Time'', Some \<lparr>cell_text = Some ''12:00''\<rparr>)]
      @ [(Some ''Time'', Some \<lparr>cell_text = Some ''13:00''\<rparr>), (Some ''Time'', None)])
     () () ''Time''
     = Some \<lparr>cell_text = Some ''12:00''\<rparr> \<and>
   rowStep fst (\<lambda>c t d. snd c) () ()
     [''Time'' \<mapsto> \<lparr>cell_text = Some ''''\<rparr>]
     (Some ''Time'', Some \<lparr>cell_text = Some ''12:00''\<rparr>) 1 ''Time''
     \<noteq> [''Time'' \<mapsto> \<lparr>cell_text = Some ''''\<rparr>] ''Time'' \<and>
   (\<exists>recorded. [''Time'' \<mapsto> \<lparr>cell_text = Some ''''\<rparr>] ''Time'' = Some recorded \<and>
      (cell_text recorded = None \<or> cell_text recorded = Some []))"
proof -
  have recorded: "getRowValues fst (\<lambda>c t d. snd c)
     [(Some ''Time'', Some \<lparr>cell_text = Some ''''\<rparr>),
      (Some ''Time'', Some \<lparr>cell_text = Some ''12:00''\<rparr>)] () () ''Time''
     = Some \<lparr>cell_text = Some ''12:00''\<rparr>"
    by (simp add: getRowValues_def rowStep_def)
  have step: "rowStep fst (\<lambda>c t d. snd c) () ()
     [''Time'' \<mapsto> \<lparr>cell_text = Some ''''\<rparr>]
     (Some ''Time'', Some \<lparr>cell_text = Some ''12:00''\<rparr>) 1 ''Time''
     \<noteq> [''Time'' \<mapsto> \<lparr>cell_text = Some ''''\<rparr>] ''Time''"
    by (simp add: rowStep_def)
  show ?thesis
    using recorded step
      getRowValues_keeps_text
        [of fst "\<lambda>c t d. snd c"
            "[(Some ''Time'', Some \<lparr>cell_text = Some ''''\<rparr>),
              (Some ''Time'', Some \<lparr>cell_text = Some ''12:00''\<rparr>)]"
            "()" "()" "''Time''" "\<lparr>cell_text = Some ''12:00''\<rparr>" "''12:00''"
            "[(Some ''Time'', Some \<lparr>cell_text = Some ''13:00''\<rparr>), (Some ''Time'', None)]"
            "[''Time'' \<mapsto> \<lparr>cell_text = Some ''''\<rparr>]"
            "(Some ''Time'', Some \<lparr>cell_text = Some ''12:00''\<rparr>)" 1]
    by simp
qed

end
